theory Spec2Isabelle
  imports Main "HOL-Library.Word"
begin

section \<open>The MSI signer: signers/msi/signer.go\<close>

subsection \<open>Data\<close>

type_synonym bytes = "8 word list"

type_synonym path = string

text \<open>An open \<^verbatim>\<open>*os.File\<close> is a handle, named by the path it was opened under. What
  is read through it are the bytes of the file it was opened on, which need not be the
  bytes now visible under that path.\<close>

type_synonym os_File = path

text \<open>\<^verbatim>\<open>crypto.Hash\<close> is an unsigned integer naming a digest algorithm.\<close>

type_synonym hash = nat

text \<open>A Go \<^verbatim>\<open>error\<close> value; a function returning \<^verbatim>\<open>error\<close> returns
  \<open>error option\<close>, one returning \<^verbatim>\<open>(T, error)\<close> returns \<open>error + T\<close>.\<close>

datatype error = Error string

text \<open>The files visible under their paths, the bytes each open handle reads (no entry
  for a handle that is not open), and the staging area of the atomic rewriter.\<close>

record world =
  files :: "path \<rightharpoonup> bytes"
  opened :: "os_File \<rightharpoonup> bytes"
  staged :: "bytes option"

text \<open>An \<^verbatim>\<open>io.Reader\<close>: the bytes it delivers, then either a clean end of stream
  (\<open>None\<close>) or a terminal error.\<close>

record reader =
  r_data :: bytes
  r_err :: "error option"

text \<open>\<^verbatim>\<open>ioutil.ReadAll\<close> reads until end of stream or error; the callers here drop
  the bytes read when it returns an error.\<close>

definition ReadAll :: "reader \<Rightarrow> error + bytes" where
  "ReadAll r = (case r_err r of Some err \<Rightarrow> Inl err | None \<Rightarrow> Inr (r_data r))"

text \<open>A \<^verbatim>\<open>pflag.FlagSet\<close>: the defined flags with their current values.
  \<^verbatim>\<open>GetBool\<close> returns the zero value \<^verbatim>\<open>false\<close> together with an error when the
  flag is not defined or is not boolean.\<close>

datatype flagval = BoolVal bool | StringVal string

type_synonym FlagSet = "string \<rightharpoonup> flagval"

definition GetBool :: "FlagSet \<Rightarrow> string \<Rightarrow> bool \<times> error option" where
  "GetBool fs name =
     (case fs name of
        None \<Rightarrow> (False, Some (Error ''flag accessed but not defined''))
      | Some (BoolVal b) \<Rightarrow> (b, None)
      | Some (StringVal s) \<Rightarrow> (False, Some (Error ''trying to get bool value of flag of type string'')))"

text \<open>\<^verbatim>\<open>init\<close>: the signer registers one flag, \<^verbatim>\<open>no-extended-sig\<close>, default false.\<close>

definition MsiSigner_Flags :: FlagSet where
  "MsiSigner_Flags = [''no-extended-sig'' \<mapsto> BoolVal False]"

record SignOpts =
  Hash :: hash
  Flags :: FlagSet

record VerifyOpts =
  NoDigests :: bool

text \<open>\<^verbatim>\<open>certloader.Certificate\<close>: what \<^verbatim>\<open>cert.Signer()\<close> and \<^verbatim>\<open>cert.Chain()\<close>
  return.\<close>

record Certificate =
  Signer :: bytes
  Chain :: "bytes list"

text \<open>What \<^verbatim>\<open>authenticode.VerifyMSI\<close> returns, and the record \<^verbatim>\<open>verify\<close> builds
  from it (\<^verbatim>\<open>signers.Signature\<close>, of which only these two fields are set).\<close>

record MsiSignature =
  HashFunc :: hash
  TimestampedSignature :: bytes

record Signature =
  sig_Hash :: hash
  X509Signature :: "bytes option"

record 'c msiTransformer =
  t_f :: os_File
  t_cdf :: 'c
  t_exsig :: bytes

subsection \<open>Collaborators\<close>

text \<open>
  Modelled from the spec: the packages \<^verbatim>\<open>lib/comdoc\<close>, \<^verbatim>\<open>lib/authenticode\<close>,
  \<^verbatim>\<open>lib/atomicfile\<close> and \<^verbatim>\<open>signers/pkcs\<close> are not among the sources. Their
  functions are parameters of the model, with the shapes of the interfaces of section 6;
  \<open>'c\<close> is the parsed structure \<^verbatim>\<open>*comdoc.ComDoc\<close>. Open-for-read, Prehash and
  Verify-embedded read through the handle and never write; the canonicalizer returns the bytes it
  wrote to the pipe and its own result; the structure writer works on the staged file
  only (\<open>WriteFile\<close> parses the staged bytes, \<open>InsertMSISignature\<close> changes the parsed
  structure, \<open>CloseDoc\<close> gives the bytes flushed to the staged file); \<open>OpenStaged\<close>
  and \<open>CommitError\<close> say whether staging and committing fail.
\<close>

record 'c collab =
  ReadFile :: "(os_File \<rightharpoonup> bytes) \<Rightarrow> os_File \<Rightarrow> error + 'c"
  PrehashMSI :: "'c \<Rightarrow> hash \<Rightarrow> error + bytes"
  MsiToTar :: "'c \<Rightarrow> bytes \<times> error option"
  OpenStaged :: "os_File \<Rightarrow> path \<Rightarrow> error option"
  WriteFile :: "bytes \<Rightarrow> error + 'c"
  InsertMSISignature :: "'c \<Rightarrow> bytes \<Rightarrow> bytes \<Rightarrow> error + 'c"
  CloseDoc :: "'c \<Rightarrow> error + bytes"
  CommitError :: "path \<Rightarrow> bytes \<Rightarrow> error option"
  DigestBytes :: "bytes \<Rightarrow> hash \<Rightarrow> bool \<Rightarrow> error + bytes"
  SignMSIImprint :: "bytes \<Rightarrow> hash \<Rightarrow> bytes \<Rightarrow> bytes list \<Rightarrow> error + bytes"
  Timestamp :: "bytes \<Rightarrow> Certificate \<Rightarrow> SignOpts \<Rightarrow> bool \<Rightarrow> error + bytes"
  VerifyMSI :: "(os_File \<rightharpoonup> bytes) \<Rightarrow> os_File \<Rightarrow> bool \<Rightarrow> error + MsiSignature"

subsection \<open>The atomic rewriter\<close>

text \<open>
  Modelled from the spec: \<^verbatim>\<open>atomicfile.AtomicFile\<close> is not among the sources. The
  handle of section 6 (staged-writable-handle) remembers the destination path; the staged
  bytes themselves live in the world's staging area.
\<close>

record AtomicFile =
  af_dest :: path

text \<open>
  Modelled from the spec: \<^verbatim>\<open>atomicfile.WriteInPlace\<close> is not among the sources.
  Section 2: the rewriter stages a replacement file; section 4.5: it opens (or reuses, if
  destination equals source) an Atomic Rewriter over the target path. The bytes read
  through the source handle are copied into the staging area, whatever the destination;
  a handle that is not open cannot be read.
\<close>

definition WriteInPlace :: "'c collab \<Rightarrow> os_File \<Rightarrow> path \<Rightarrow> world \<Rightarrow> (error + AtomicFile) \<times> world" where
  "WriteInPlace env src dest w =
     (case OpenStaged env src dest of
        Some err \<Rightarrow> (Inl err, w)
      | None \<Rightarrow>
         (case opened w src of
            None \<Rightarrow> (Inl (Error ''file already closed''), w)
          | Some c \<Rightarrow> (Inr \<lparr>af_dest = dest\<rparr>, w\<lparr>staged := Some c\<rparr>)))"

text \<open>
  Modelled from the spec: \<^verbatim>\<open>AtomicFile.Commit\<close> is not among the sources. Section 2:
  the staged file is only made visible under the original path on explicit commit;
  section 8: a commit failure leaves the original file's bytes unchanged. The spec does
  not say what a handle opened earlier reads after a commit; the handles are left as
  they are.
\<close>

definition Commit :: "'c collab \<Rightarrow> AtomicFile \<Rightarrow> world \<Rightarrow> error option \<times> world" where
  "Commit env af w =
     (case staged w of
        None \<Rightarrow> (Some (Error ''file already closed''), w)
      | Some c \<Rightarrow>
         (case CommitError env (af_dest af) c of
            Some err \<Rightarrow> (Some err, w)
          | None \<Rightarrow> (None, w\<lparr>files := (files w)(af_dest af \<mapsto> c), staged := None\<rparr>)))"

text \<open>
  Modelled from the spec: \<^verbatim>\<open>AtomicFile.Close\<close> is not among the sources. Section 6:
  abandon on drop without commit; whatever is staged is dropped, the visible files stay.
\<close>

definition Close :: "AtomicFile \<Rightarrow> world \<Rightarrow> world" where
  "Close af w = w\<lparr>staged := None\<rparr>"

text \<open>
  Modelled from the spec: \<^verbatim>\<open>comdoc.WriteFile\<close> on \<^verbatim>\<open>f.GetFile()\<close> is not among the
  sources. Section 4.5: it re-parses the structure for writing in the staged location.
\<close>

definition comdoc_WriteFile :: "'c collab \<Rightarrow> world \<Rightarrow> error + 'c" where
  "comdoc_WriteFile env w =
     (case staged w of
        None \<Rightarrow> Inl (Error ''file already closed'')
      | Some c \<Rightarrow> WriteFile env c)"

text \<open>
  Modelled from the spec: \<^verbatim>\<open>cdf.Close()\<close> is not among the sources. Section 4.5: it
  closes the parsed-structure writer, which flushes the structure to the staged file.
\<close>

definition comdoc_Close :: "'c collab \<Rightarrow> 'c \<Rightarrow> world \<Rightarrow> error option \<times> world" where
  "comdoc_Close env cdf w =
     (case CloseDoc env cdf of
        Inl err \<Rightarrow> (Some err, w)
      | Inr c \<Rightarrow> (None, w\<lparr>staged := Some c\<rparr>))"

subsection \<open>transform\<close>

definition transform ::
  "'c collab \<Rightarrow> os_File \<Rightarrow> SignOpts \<Rightarrow> world \<Rightarrow> (error + 'c msiTransformer) \<times> world" where
  "transform env f opts w =
     (case ReadFile env (opened w) f of
        Inl err \<Rightarrow> (Inl err, w)
      | Inr cdf \<Rightarrow>
         (let noExtended = fst (GetBool (Flags opts) ''no-extended-sig'') in
          if \<not> noExtended then
            (case PrehashMSI env cdf (Hash opts) of
               Inl err \<Rightarrow> (Inl err, w)
             | Inr exsig \<Rightarrow> (Inr \<lparr>t_f = f, t_cdf = cdf, t_exsig = exsig\<rparr>, w))
          else (Inr \<lparr>t_f = f, t_cdf = cdf, t_exsig = []\<rparr>, w)))"

subsection \<open>GetReader\<close>

text \<open>
  \<^verbatim>\<open>io.Pipe\<close>: the reader delivers every byte the producer wrote, then the error the
  write side was closed with; \<^verbatim>\<open>CloseWithError(nil)\<close> is a plain close, so the reader
  ends with end of stream. The declared length is an \<^verbatim>\<open>int64\<close>.
\<close>

definition GetReader :: "'c collab \<Rightarrow> 'c msiTransformer \<Rightarrow> reader \<times> 64 word \<times> error option" where
  "GetReader env t =
     (case MsiToTar env (t_cdf t) of
        (written, err) \<Rightarrow> (\<lparr>r_data = written, r_err = err\<rparr>, - 1, None))"

subsection \<open>Apply\<close>

text \<open>The deferred \<^verbatim>\<open>f.Close()\<close> runs on every return after \<open>WriteInPlace\<close> succeeded.\<close>

definition Apply ::
  "'c collab \<Rightarrow> 'c msiTransformer \<Rightarrow> path \<Rightarrow> string \<Rightarrow> reader \<Rightarrow> world \<Rightarrow> error option \<times> world" where
  "Apply env t dest mimeType result w =
     (case ReadAll result of
        Inl err \<Rightarrow> (Some err, w)
      | Inr blob \<Rightarrow>
         (case WriteInPlace env (t_f t) dest w of
            (Inl err, w1) \<Rightarrow> (Some err, w1)
          | (Inr f, w1) \<Rightarrow>
             (case comdoc_WriteFile env w1 of
                Inl err \<Rightarrow> (Some err, Close f w1)
              | Inr cdf \<Rightarrow>
                 (case InsertMSISignature env cdf blob (t_exsig t) of
                    Inl err \<Rightarrow> (Some err, Close f w1)
                  | Inr cdf' \<Rightarrow>
                     (case comdoc_Close env cdf' w1 of
                        (Some err, w2) \<Rightarrow> (Some err, Close f w2)
                      | (None, w2) \<Rightarrow>
                         (case Commit env f w2 of
                            (res, w3) \<Rightarrow> (res, Close f w3)))))))"

subsection \<open>sign\<close>

text \<open>
  Modelled from the spec: \<^verbatim>\<open>authenticode.DigestMsiTar\<close> is not among the sources.
  Section 4.4: it computes a running digest over all stream bytes (and, if enabled, a
  combined digest incorporating the extended value); any failure from the stream aborts.
\<close>

definition DigestMsiTar :: "'c collab \<Rightarrow> reader \<Rightarrow> hash \<Rightarrow> bool \<Rightarrow> error + bytes" where
  "DigestMsiTar env r h extended =
     (case ReadAll r of
        Inl err \<Rightarrow> Inl err
      | Inr bs \<Rightarrow> DigestBytes env bs h extended)"

definition sign :: "'c collab \<Rightarrow> reader \<Rightarrow> Certificate \<Rightarrow> SignOpts \<Rightarrow> error + bytes" where
  "sign env r cert opts =
     (let noExtended = fst (GetBool (Flags opts) ''no-extended-sig'') in
      case DigestMsiTar env r (Hash opts) (\<not> noExtended) of
        Inl err \<Rightarrow> Inl err
      | Inr digest \<Rightarrow>
         (case SignMSIImprint env digest (Hash opts) (Signer cert) (Chain cert) of
            Inl err \<Rightarrow> Inl err
          | Inr psd \<Rightarrow> Timestamp env psd cert opts True))"

subsection \<open>verify\<close>

definition verify :: "'c collab \<Rightarrow> os_File \<Rightarrow> VerifyOpts \<Rightarrow> world \<Rightarrow> error + Signature list" where
  "verify env f opts w =
     (case VerifyMSI env (opened w) f (NoDigests opts) of
        Inl err \<Rightarrow> Inl err
      | Inr sig \<Rightarrow>
         Inr [\<lparr>sig_Hash = HashFunc sig, X509Signature = Some (TimestampedSignature sig)\<rparr>])"

subsection \<open>The signing flow\<close>


subsection \<open>Concrete collaborators\<close>

text \<open>
  A collaborator set to run the entry points on: the parsed structure is the file's
  bytes, an empty file does not parse, embedding appends the blob and the extended
  digest, the digest is the first canonical byte (after the algorithm's number when
  extended), and a file verifies when it is longer than two bytes.
\<close>

definition plain_collab :: "bytes collab" where
  "plain_collab =
     \<lparr>ReadFile = (\<lambda>fs f. case fs f of
                               None \<Rightarrow> Inl (Error ''open'')
                             | Some b \<Rightarrow> if b = [] then Inl (Error ''not a compound document'') else Inr b),
      PrehashMSI = (\<lambda>c h. Inr [of_nat h]),
      MsiToTar = (\<lambda>c. (c, None)),
      OpenStaged = (\<lambda>src dest. None),
      WriteFile = Inr,
      InsertMSISignature = (\<lambda>c blob exsig. Inr (c @ blob @ exsig)),
      CloseDoc = Inr,
      CommitError = (\<lambda>dest c. None),
      DigestBytes = (\<lambda>bs h extended. Inr (if extended then of_nat h # take 1 bs else take 1 bs)),
      SignMSIImprint = (\<lambda>digest h signer chain. Inr (digest @ signer)),
      Timestamp = (\<lambda>psd cert opts b. Inr psd),
      VerifyMSI = (\<lambda>fs f nodigests. case fs f of
                               None \<Rightarrow> Inl (Error ''open'')
                             | Some b \<Rightarrow> if length b \<le> 2 then Inl (Error ''not signed'')
                                         else Inr \<lparr>HashFunc = 5, TimestampedSignature = drop 2 b\<rparr>)\<rparr>"

definition broken_tar :: "bytes collab" where
  "broken_tar = plain_collab\<lparr>MsiToTar := (\<lambda>c. (take 1 c, Some (Error ''short write'')))\<rparr>"

definition broken_embed :: "bytes collab" where
  "broken_embed = plain_collab\<lparr>InsertMSISignature := (\<lambda>c blob exsig. Inl (Error ''no free sector''))\<rparr>"

definition broken_prehash :: "bytes collab" where
  "broken_prehash = plain_collab\<lparr>PrehashMSI := (\<lambda>c h. Inl (Error ''hash not available''))\<rparr>"

definition w0 :: world where
  "w0 = \<lparr>files = [''a.msi'' \<mapsto> [1, 2], ''bad.msi'' \<mapsto> []],
          opened = [''a.msi'' \<mapsto> [1, 2], ''bad.msi'' \<mapsto> []],
          staged = None\<rparr>"

definition signed_world :: world where
  "signed_world = \<lparr>files = [''s.msi'' \<mapsto> [1, 2, 9, 5]],
                    opened = [''s.msi'' \<mapsto> [1, 2, 9, 5]],
                    staged = None\<rparr>"

definition opts0 :: SignOpts where
  "opts0 = \<lparr>Hash = 5, Flags = MsiSigner_Flags\<rparr>"

definition opts_noext :: SignOpts where
  "opts_noext = \<lparr>Hash = 5, Flags = [''no-extended-sig'' \<mapsto> BoolVal True]\<rparr>"

definition opts_undefined :: SignOpts where
  "opts_undefined = \<lparr>Hash = 5, Flags = Map.empty\<rparr>"

definition cert0 :: Certificate where
  "cert0 = \<lparr>Signer = [3], Chain = [[4]]\<rparr>"

definition t0 :: "bytes msiTransformer" where
  "t0 = \<lparr>t_f = ''a.msi'', t_cdf = [1, 2], t_exsig = [5]\<rparr>"

definition blob0 :: reader where
  "blob0 = \<lparr>r_data = [9], r_err = None\<rparr>"

definition torn_blob :: reader where
  "torn_blob = \<lparr>r_data = [9], r_err = Some (Error ''unexpected EOF'')\<rparr>"

section \<open>Properties\<close>

subsection \<open>Shared facts about transform and Apply\<close>


lemma transform_Inr:
  "fst (transform env f opts w) = Inr t \<Longrightarrow>
     t_f t = f \<and> ReadFile env (opened w) f = Inr (t_cdf t) \<and>
     (if fst (GetBool (Flags opts) ''no-extended-sig'') then t_exsig t = []
      else PrehashMSI env (t_cdf t) (Hash opts) = Inr (t_exsig t))"
  by (auto simp: transform_def Let_def split: sum.splits if_splits)

lemma transform_Prehash_unused:
  "fst (GetBool (Flags opts) ''no-extended-sig'') \<Longrightarrow>
     transform (env\<lparr>PrehashMSI := p\<rparr>) f opts w = transform env f opts w"
  by (simp add: transform_def Let_def split: sum.splits)

lemma transform_MsiToTar_unused:
  "transform (env\<lparr>MsiToTar := m\<rparr>) f opts w = transform env f opts w"
  by (simp add: transform_def Let_def split: sum.splits)

lemmas Apply_defs =
  Apply_def WriteInPlace_def comdoc_WriteFile_def comdoc_Close_def Commit_def Close_def

lemma Apply_error_world:
  "Apply env t dest m r w = (Some err, w') \<Longrightarrow>
     files w' = files w \<and> (w' = w \<or> staged w' = None)"
  by (auto simp: Apply_defs split: sum.splits option.splits prod.splits)

lemma Apply_success_steps:
  "Apply env t dest m r w = (None, w') \<Longrightarrow>
     \<exists>blob c0 cdf cdf' c1.
       ReadAll r = Inr blob \<and> OpenStaged env (t_f t) dest = None \<and>
       opened w (t_f t) = Some c0 \<and> WriteFile env c0 = Inr cdf \<and>
       InsertMSISignature env cdf blob (t_exsig t) = Inr cdf' \<and>
       CloseDoc env cdf' = Inr c1 \<and> CommitError env dest c1 = None \<and>
       w' = w\<lparr>files := (files w)(dest \<mapsto> c1), staged := None\<rparr>"
  by (auto simp: Apply_defs split: sum.splits option.splits prod.splits)

lemma Apply_steps_success:
  "ReadAll r = Inr blob \<Longrightarrow> OpenStaged env (t_f t) dest = None \<Longrightarrow>
   opened w (t_f t) = Some c0 \<Longrightarrow> WriteFile env c0 = Inr cdf \<Longrightarrow>
   InsertMSISignature env cdf blob (t_exsig t) = Inr cdf' \<Longrightarrow>
   CloseDoc env cdf' = Inr c1 \<Longrightarrow> CommitError env dest c1 = None \<Longrightarrow>
   Apply env t dest m r w = (None, w\<lparr>files := (files w)(dest \<mapsto> c1), staged := None\<rparr>)"
  by (simp add: Apply_defs)


lemmas concrete_defs =
  plain_collab_def broken_tar_def broken_embed_def broken_prehash_def w0_def signed_world_def
  opts0_def opts_noext_def opts_undefined_def cert0_def t0_def blob0_def torn_blob_def
  MsiSigner_Flags_def
  GetBool_def ReadAll_def

subsection \<open>The claims\<close>

text \<open>
  C7. The streaming read side never declares a total length: for every collaborator
  set and every transformer, GetReader returns the declared length -1 (read as a signed
  64-bit integer) and no error.
\<close>

theorem GetReader_length_unknown:
  "sint (fst (snd (GetReader env t))) = - 1 \<and> snd (snd (GetReader env t)) = None"
  by (simp add: GetReader_def split: prod.split)

text \<open>
  C9. A successful verify returns exactly one signature record: the list has length
  one, and its only element carries the hash algorithm and the timestamped signature of
  the value VerifyMSI extracted from the container.
\<close>

theorem verify_single_record:
  "verify env f opts w = Inr sigs \<Longrightarrow>
     length sigs = 1 \<and>
     (\<exists>sig. VerifyMSI env (opened w) f (NoDigests opts) = Inr sig \<and>
            sigs = [\<lparr>sig_Hash = HashFunc sig, X509Signature = Some (TimestampedSignature sig)\<rparr>])"
  by (auto simp: verify_def split: sum.splits)

theorem verify_single_record_witness:
  "verify plain_collab ''s.msi'' \<lparr>NoDigests = False\<rparr> signed_world =
     Inr [\<lparr>sig_Hash = 5, X509Signature = Some [9, 5]\<rparr>] \<and>
   length [\<lparr>sig_Hash = 5, X509Signature = Some [9, 5 :: 8 word]\<rparr>] = 1"
proof -
  have h: "verify plain_collab ''s.msi'' \<lparr>NoDigests = False\<rparr> signed_world =
             Inr [\<lparr>sig_Hash = 5, X509Signature = Some [9, 5]\<rparr>]"
    by (simp add: verify_def concrete_defs)
  from verify_single_record [OF h] show ?thesis using h by simp
qed

text \<open>
  C8. transform never changes the world. When the container does not parse, transform
  returns the parser's error and no transformer; when the container parses, the extended
  digest is wanted and its precomputation fails, transform returns that error and no
  transformer.
\<close>

theorem transform_failure_no_mutation:
  "snd (transform env f opts w) = w \<and>
   (ReadFile env (opened w) f = Inl err \<longrightarrow> transform env f opts w = (Inl err, w)) \<and>
   (ReadFile env (opened w) f = Inr cdf \<and> \<not> fst (GetBool (Flags opts) ''no-extended-sig'') \<and>
      PrehashMSI env cdf (Hash opts) = Inl err \<longrightarrow>
    transform env f opts w = (Inl err, w))"
  by (simp add: transform_def Let_def split: sum.splits)

theorem transform_failure_no_mutation_witness:
  "ReadFile plain_collab (opened w0) ''bad.msi'' = Inl (Error ''not a compound document'') \<and>
   transform plain_collab ''bad.msi'' opts0 w0 = (Inl (Error ''not a compound document''), w0) \<and>
   ReadFile broken_prehash (opened w0) ''a.msi'' = Inr [1, 2] \<and>
   \<not> fst (GetBool (Flags opts0) ''no-extended-sig'') \<and>
   PrehashMSI broken_prehash [1, 2] (Hash opts0) = Inl (Error ''hash not available'') \<and>
   transform broken_prehash ''a.msi'' opts0 w0 = (Inl (Error ''hash not available''), w0)"
proof -
  have p: "ReadFile plain_collab (opened w0) ''bad.msi'' = Inl (Error ''not a compound document'')"
    by (simp add: concrete_defs)
  have q: "ReadFile broken_prehash (opened w0) ''a.msi'' = Inr [1, 2] \<and>
           \<not> fst (GetBool (Flags opts0) ''no-extended-sig'') \<and>
           PrehashMSI broken_prehash [1, 2] (Hash opts0) = Inl (Error ''hash not available'')"
    by (simp add: concrete_defs)
  from p transform_failure_no_mutation [of plain_collab "''bad.msi''" opts0 w0]
  have a: "transform plain_collab ''bad.msi'' opts0 w0 = (Inl (Error ''not a compound document''), w0)"
    by blast
  from q transform_failure_no_mutation [of broken_prehash "''a.msi''" opts0 w0]
  have b: "transform broken_prehash ''a.msi'' opts0 w0 = (Inl (Error ''hash not available''), w0)"
    by blast
  from p q a b show ?thesis by blast
qed

text \<open>
  C3. When Apply returns an error, at whatever step, the visible files are exactly
  those before the call and nothing is left staged (the world is unchanged, or the
  staging area is empty). The visible files change only when Apply succeeds, and then
  only at the destination path, to the bytes whose commit succeeded.
\<close>

theorem Apply_failure_preserves_files:
  "Apply env t dest mimeType result w = (res, w') \<Longrightarrow>
     (res \<noteq> None \<longrightarrow> files w' = files w \<and> (w' = w \<or> staged w' = None)) \<and>
     (files w' \<noteq> files w \<longrightarrow>
        res = None \<and> staged w' = None \<and>
        (\<exists>c. CommitError env dest c = None \<and> files w' = (files w)(dest \<mapsto> c)))"
proof (cases res)
  case None
  assume "Apply env t dest mimeType result w = (res, w')"
  with None have "Apply env t dest mimeType result w = (None, w')" by simp
  from Apply_success_steps [OF this] None show ?thesis by auto
next
  case (Some err)
  assume "Apply env t dest mimeType result w = (res, w')"
  with Some have "Apply env t dest mimeType result w = (Some err, w')" by simp
  from Apply_error_world [OF this] Some show ?thesis by auto
qed

theorem Apply_failure_preserves_files_witness:
  "fst (Apply broken_embed t0 ''a.msi'' ''application/x-msi'' blob0 w0) = Some (Error ''no free sector'') \<and>
   files (snd (Apply broken_embed t0 ''a.msi'' ''application/x-msi'' blob0 w0)) = files w0 \<and>
   staged (snd (Apply broken_embed t0 ''a.msi'' ''application/x-msi'' blob0 w0)) = None \<and>
   fst (Apply plain_collab t0 ''a.msi'' ''application/x-msi'' blob0 w0) = None \<and>
   files (snd (Apply plain_collab t0 ''a.msi'' ''application/x-msi'' blob0 w0)) =
     (files w0)(''a.msi'' \<mapsto> [1, 2, 9, 5]) \<and>
   CommitError plain_collab ''a.msi'' [1, 2, 9, 5] = None"
proof -
  let ?bad = "Apply broken_embed t0 ''a.msi'' ''application/x-msi'' blob0 w0"
  let ?good = "Apply plain_collab t0 ''a.msi'' ''application/x-msi'' blob0 w0"
  have a: "fst ?bad = Some (Error ''no free sector'')"
    by (simp add: Apply_defs concrete_defs)
  have b: "fst ?good = None"
    and c: "files (snd ?good) = (files w0)(''a.msi'' \<mapsto> [1, 2, 9, 5])"
    and d: "CommitError plain_collab ''a.msi'' [1, 2, 9, 5] = None"
    by (simp_all add: Apply_defs concrete_defs)
  have "?bad = (fst ?bad, snd ?bad)" by simp
  from Apply_failure_preserves_files [OF this] a
  have "files (snd ?bad) = files w0 \<and> (snd ?bad = w0 \<or> staged (snd ?bad) = None)"
    by simp
  then have "files (snd ?bad) = files w0 \<and> staged (snd ?bad) = None"
    by (auto simp: w0_def)
  with a b c d show ?thesis by simp
qed




text \<open>
  C4. When the flag no-extended-sig reads as false and transform succeeds, the
  transformer's extended digest is the value PrehashMSI gave for the structure parsed
  from the file as it was when transform was called; transform has then returned the
  finished transformer, and its result is the same whatever the canonicalization
  producer (started only by GetReader, on that transformer) does.
\<close>

theorem exsig_fixed_by_transform:
  "\<not> fst (GetBool (Flags opts) ''no-extended-sig'') \<Longrightarrow>
   transform env f opts w = (Inr t, w') \<Longrightarrow>
     ReadFile env (opened w) f = Inr (t_cdf t) \<and>
     PrehashMSI env (t_cdf t) (Hash opts) = Inr (t_exsig t) \<and>
     transform (env\<lparr>MsiToTar := producer\<rparr>) f opts w = (Inr t, w')"
  using transform_Inr [of env f opts w t] transform_MsiToTar_unused [where env = env and m = producer and f = f and opts = opts and w = w]
  by simp

theorem exsig_fixed_by_transform_witness:
  "\<not> fst (GetBool (Flags opts0) ''no-extended-sig'') \<and>
   transform plain_collab ''a.msi'' opts0 w0 = (Inr t0, w0) \<and>
   ReadFile plain_collab (opened w0) ''a.msi'' = Inr (t_cdf t0) \<and>
   PrehashMSI plain_collab (t_cdf t0) (Hash opts0) = Inr (t_exsig t0) \<and>
   transform broken_tar ''a.msi'' opts0 w0 = (Inr t0, w0)"
proof -
  have a: "\<not> fst (GetBool (Flags opts0) ''no-extended-sig'')"
    by (simp add: concrete_defs)
  have b: "transform plain_collab ''a.msi'' opts0 w0 = (Inr t0, w0)"
    by (simp add: transform_def concrete_defs)
  from exsig_fixed_by_transform [OF a b, where producer = "\<lambda>c. (take 1 c, Some (Error ''short write''))"] a b
  show ?thesis by (simp add: broken_tar_def)
qed

text \<open>
  C5. The flag no-extended-sig is registered with default false. For a transformer
  that transform returned: with the flag true its extended digest is empty and transform
  did not consult PrehashMSI (its result is the same for any other PrehashMSI); with the
  flag false its extended digest is the value PrehashMSI computed. Apply embeds exactly
  the transformer's extended digest: whenever reading the blob, staging, re-opening,
  InsertMSISignature on the blob and that digest, closing and committing succeed, Apply
  succeeds and commits the structure InsertMSISignature produced from them; and every
  successful Apply committed a structure produced that way.
\<close>

theorem no_extended_sig_flag:
  "fst (transform env f opts w) = Inr t \<Longrightarrow>
     MsiSigner_Flags ''no-extended-sig'' = Some (BoolVal False) \<and>
     (Flags opts ''no-extended-sig'' = Some (BoolVal True) \<longrightarrow>
        t_exsig t = [] \<and>
        transform (env\<lparr>PrehashMSI := p\<rparr>) f opts w = transform env f opts w) \<and>
     (Flags opts ''no-extended-sig'' = Some (BoolVal False) \<longrightarrow>
        PrehashMSI env (t_cdf t) (Hash opts) = Inr (t_exsig t)) \<and>
     (ReadAll result = Inr blob \<and> OpenStaged env f dest = None \<and>
      opened w1 f = Some c0 \<and> WriteFile env c0 = Inr cdf \<and>
      InsertMSISignature env cdf blob (t_exsig t) = Inr cdf' \<and>
      CloseDoc env cdf' = Inr c1 \<and> CommitError env dest c1 = None \<longrightarrow>
        Apply env t dest mimeType result w1 =
          (None, w1\<lparr>files := (files w1)(dest \<mapsto> c1), staged := None\<rparr>)) \<and>
     (Apply env t dest mimeType result w1 = (None, w2) \<longrightarrow>
        (\<exists>blob c0 cdf cdf' c1.
           ReadAll result = Inr blob \<and> opened w1 f = Some c0 \<and> WriteFile env c0 = Inr cdf \<and>
           InsertMSISignature env cdf blob (t_exsig t) = Inr cdf' \<and>
           CloseDoc env cdf' = Inr c1 \<and> files w2 = (files w1)(dest \<mapsto> c1)))"
proof -
  assume t: "fst (transform env f opts w) = Inr t"
  note inr = transform_Inr [OF t]
  then have tf: "t_f t = f" by simp
  have dflt: "MsiSigner_Flags ''no-extended-sig'' = Some (BoolVal False)"
    by (simp add: MsiSigner_Flags_def)
  have on: "t_exsig t = [] \<and> transform (env\<lparr>PrehashMSI := p\<rparr>) f opts w = transform env f opts w"
    if "Flags opts ''no-extended-sig'' = Some (BoolVal True)"
  proof -
    from that have "fst (GetBool (Flags opts) ''no-extended-sig'')"
      by (simp add: GetBool_def)
    with inr transform_Prehash_unused [where env = env and p = p and f = f and opts = opts and w = w] show ?thesis by simp
  qed
  have off: "PrehashMSI env (t_cdf t) (Hash opts) = Inr (t_exsig t)"
    if "Flags opts ''no-extended-sig'' = Some (BoolVal False)"
  proof -
    from that have "\<not> fst (GetBool (Flags opts) ''no-extended-sig'')"
      by (simp add: GetBool_def)
    with inr show ?thesis by simp
  qed
  have does: "Apply env t dest mimeType result w1 =
          (None, w1\<lparr>files := (files w1)(dest \<mapsto> c1), staged := None\<rparr>)"
    if "ReadAll result = Inr blob \<and> OpenStaged env f dest = None \<and>
      opened w1 f = Some c0 \<and> WriteFile env c0 = Inr cdf \<and>
      InsertMSISignature env cdf blob (t_exsig t) = Inr cdf' \<and>
      CloseDoc env cdf' = Inr c1 \<and> CommitError env dest c1 = None"
    using that tf Apply_steps_success [where env = env and t = t and r = result and w = w1
        and dest = dest and blob = blob and ?c0.0 = c0 and cdf = cdf and cdf' = cdf' and ?c1.0 = c1]
    by simp
  have emb: "\<exists>blob c0 cdf cdf' c1.
           ReadAll result = Inr blob \<and> opened w1 f = Some c0 \<and> WriteFile env c0 = Inr cdf \<and>
           InsertMSISignature env cdf blob (t_exsig t) = Inr cdf' \<and>
           CloseDoc env cdf' = Inr c1 \<and> files w2 = (files w1)(dest \<mapsto> c1)"
    if "Apply env t dest mimeType result w1 = (None, w2)"
  proof -
    from Apply_success_steps [OF that] inr show ?thesis by auto
  qed
  from dflt on off does emb show ?thesis by blast
qed

theorem no_extended_sig_flag_witness:
  "fst (transform plain_collab ''a.msi'' opts_noext w0) =
     Inr \<lparr>t_f = ''a.msi'', t_cdf = [1, 2], t_exsig = []\<rparr> \<and>
   Flags opts_noext ''no-extended-sig'' = Some (BoolVal True) \<and>
   transform broken_prehash ''a.msi'' opts_noext w0 = transform plain_collab ''a.msi'' opts_noext w0 \<and>
   InsertMSISignature plain_collab [1, 2] [9] [] = Inr [1, 2, 9] \<and>
   Apply plain_collab \<lparr>t_f = ''a.msi'', t_cdf = [1, 2], t_exsig = []\<rparr> ''a.msi'' ''application/x-msi'' blob0 w0 =
     (None, w0\<lparr>files := (files w0)(''a.msi'' \<mapsto> [1, 2, 9])\<rparr>) \<and>
   fst (transform plain_collab ''a.msi'' opts0 w0) = Inr t0 \<and>
   Flags opts0 ''no-extended-sig'' = Some (BoolVal False) \<and>
   PrehashMSI plain_collab (t_cdf t0) (Hash opts0) = Inr [5] \<and> t_exsig t0 = [5] \<and>
   InsertMSISignature plain_collab [1, 2] [9] [5] = Inr [1, 2, 9, 5] \<and>
   Apply plain_collab t0 ''a.msi'' ''application/x-msi'' blob0 w0 =
     (None, w0\<lparr>files := (files w0)(''a.msi'' \<mapsto> [1, 2, 9, 5])\<rparr>)"
proof -
  let ?t = "\<lparr>t_f = ''a.msi'', t_cdf = [1, 2], t_exsig = []\<rparr> :: bytes msiTransformer"
  have a: "fst (transform plain_collab ''a.msi'' opts_noext w0) = Inr ?t"
    and b: "Flags opts_noext ''no-extended-sig'' = Some (BoolVal True)"
    and c: "fst (transform plain_collab ''a.msi'' opts0 w0) = Inr t0"
    and d: "Flags opts0 ''no-extended-sig'' = Some (BoolVal False)"
    by (simp_all add: transform_def concrete_defs)
  have steps: "ReadAll blob0 = Inr [9]" "OpenStaged plain_collab ''a.msi'' ''a.msi'' = None"
    "opened w0 ''a.msi'' = Some [1, 2]" "WriteFile plain_collab [1, 2] = Inr [1, 2]"
    by (simp_all add: concrete_defs)
  have off_steps: "InsertMSISignature plain_collab [1, 2] [9] (t_exsig ?t) = Inr [1, 2, 9]"
    "CloseDoc plain_collab [1, 2, 9] = Inr [1, 2, 9]"
    "CommitError plain_collab ''a.msi'' [1, 2, 9] = None"
    by (simp_all add: concrete_defs)
  have on_steps: "InsertMSISignature plain_collab [1, 2] [9] (t_exsig t0) = Inr [1, 2, 9, 5]"
    "CloseDoc plain_collab [1, 2, 9, 5] = Inr [1, 2, 9, 5]"
    "CommitError plain_collab ''a.msi'' [1, 2, 9, 5] = None"
    and x: "t_exsig t0 = [5]"
    by (simp_all add: concrete_defs)
  note th_off = no_extended_sig_flag [OF a, where p = "\<lambda>c h. Inl (Error ''hash not available'')"
      and result = blob0 and blob = "[9]" and dest = "''a.msi''" and ?w1.0 = w0
      and ?c0.0 = "[1, 2]" and cdf = "[1, 2]" and cdf' = "[1, 2, 9]" and ?c1.0 = "[1, 2, 9]"
      and mimeType = "''application/x-msi''"]
  note th_on = no_extended_sig_flag [OF c, where result = blob0 and blob = "[9]"
      and dest = "''a.msi''" and ?w1.0 = w0 and ?c0.0 = "[1, 2]" and cdf = "[1, 2]"
      and cdf' = "[1, 2, 9, 5]" and ?c1.0 = "[1, 2, 9, 5]" and mimeType = "''application/x-msi''"]
  from th_off b
  have e: "transform broken_prehash ''a.msi'' opts_noext w0 = transform plain_collab ''a.msi'' opts_noext w0"
    by (simp add: broken_prehash_def)
  from th_off steps off_steps
  have g: "Apply plain_collab ?t ''a.msi'' ''application/x-msi'' blob0 w0 =
             (None, w0\<lparr>files := (files w0)(''a.msi'' \<mapsto> [1, 2, 9]), staged := None\<rparr>)"
    by blast
  from th_on d have h: "PrehashMSI plain_collab (t_cdf t0) (Hash opts0) = Inr (t_exsig t0)"
    by blast
  from th_on steps on_steps
  have i: "Apply plain_collab t0 ''a.msi'' ''application/x-msi'' blob0 w0 =
             (None, w0\<lparr>files := (files w0)(''a.msi'' \<mapsto> [1, 2, 9, 5]), staged := None\<rparr>)"
    by blast
  from g have g': "Apply plain_collab ?t ''a.msi'' ''application/x-msi'' blob0 w0 =
             (None, w0\<lparr>files := (files w0)(''a.msi'' \<mapsto> [1, 2, 9])\<rparr>)"
    by (simp add: w0_def)
  from i have i': "Apply plain_collab t0 ''a.msi'' ''application/x-msi'' blob0 w0 =
             (None, w0\<lparr>files := (files w0)(''a.msi'' \<mapsto> [1, 2, 9, 5])\<rparr>)"
    by (simp add: w0_def)
  from a b c d e g' h i' x off_steps on_steps show ?thesis by simp
qed



text \<open>
  C10. When reading the flag no-extended-sig from the options gives an error, the
  error is dropped: transform behaves as with the registered default (flag false), so
  a transformer it returns carries the extended digest PrehashMSI computed, and sign asks
  DigestMsiTar for the extended form; neither returns the flag's error.
\<close>

theorem flag_error_ignored:
  "snd (GetBool (Flags opts) ''no-extended-sig'') = Some ferr \<Longrightarrow>
     transform env f opts w = transform env f (opts\<lparr>Flags := MsiSigner_Flags\<rparr>) w \<and>
     (\<forall>t. fst (transform env f opts w) = Inr t \<longrightarrow>
          PrehashMSI env (t_cdf t) (Hash opts) = Inr (t_exsig t)) \<and>
     sign env r cert opts =
       (case DigestMsiTar env r (Hash opts) True of
          Inl err \<Rightarrow> Inl err
        | Inr digest \<Rightarrow>
           (case SignMSIImprint env digest (Hash opts) (Signer cert) (Chain cert) of
              Inl err \<Rightarrow> Inl err
            | Inr psd \<Rightarrow> Timestamp env psd cert opts True))"
proof -
  assume e: "snd (GetBool (Flags opts) ''no-extended-sig'') = Some ferr"
  then have off: "\<not> fst (GetBool (Flags opts) ''no-extended-sig'')"
    by (auto simp: GetBool_def split: option.splits flagval.splits)
  have dflt: "\<not> fst (GetBool MsiSigner_Flags ''no-extended-sig'')"
    by (simp add: GetBool_def MsiSigner_Flags_def)
  from off dflt
  have a: "transform env f opts w = transform env f (opts\<lparr>Flags := MsiSigner_Flags\<rparr>) w"
    by (simp add: transform_def Let_def split: sum.splits)
  from off have b: "PrehashMSI env (t_cdf t) (Hash opts) = Inr (t_exsig t)"
    if "fst (transform env f opts w) = Inr t" for t
    using transform_Inr [OF that] by simp
  from off have c: "sign env r cert opts =
       (case DigestMsiTar env r (Hash opts) True of
          Inl err \<Rightarrow> Inl err
        | Inr digest \<Rightarrow>
           (case SignMSIImprint env digest (Hash opts) (Signer cert) (Chain cert) of
              Inl err \<Rightarrow> Inl err
            | Inr psd \<Rightarrow> Timestamp env psd cert opts True))"
    by (simp add: sign_def Let_def)
  from a b c show ?thesis by blast
qed

theorem flag_error_ignored_witness:
  "snd (GetBool (Flags opts_undefined) ''no-extended-sig'') =
     Some (Error ''flag accessed but not defined'') \<and>
   transform plain_collab ''a.msi'' opts_undefined w0 = (Inr t0, w0) \<and>
   PrehashMSI plain_collab (t_cdf t0) (Hash opts_undefined) = Inr (t_exsig t0) \<and>
   DigestMsiTar plain_collab \<lparr>r_data = [1, 2], r_err = None\<rparr> (Hash opts_undefined) True = Inr [5, 1] \<and>
   sign plain_collab \<lparr>r_data = [1, 2], r_err = None\<rparr> cert0 opts_undefined = Inr [5, 1, 3]"
proof -
  have a: "snd (GetBool (Flags opts_undefined) ''no-extended-sig'') =
             Some (Error ''flag accessed but not defined'')"
    by (simp add: concrete_defs)
  have b: "transform plain_collab ''a.msi'' (opts_undefined\<lparr>Flags := MsiSigner_Flags\<rparr>) w0 = (Inr t0, w0)"
    by (simp add: transform_def concrete_defs)
  have c: "DigestMsiTar plain_collab \<lparr>r_data = [1, 2], r_err = None\<rparr> (Hash opts_undefined) True = Inr [5, 1]"
    by (simp add: DigestMsiTar_def concrete_defs)
  note th = flag_error_ignored [OF a, of plain_collab "''a.msi''" w0 "\<lparr>r_data = [1, 2], r_err = None\<rparr>" cert0]
  from th b have d: "transform plain_collab ''a.msi'' opts_undefined w0 = (Inr t0, w0)"
    by simp
  with th have e: "PrehashMSI plain_collab (t_cdf t0) (Hash opts_undefined) = Inr (t_exsig t0)"
    by simp
  from th c have g: "sign plain_collab \<lparr>r_data = [1, 2], r_err = None\<rparr> cert0 opts_undefined = Inr [5, 1, 3]"
    by (simp add: concrete_defs)
  from a d e c g show ?thesis by simp
qed

end
